theory Spec2Isabelle
  imports Complex_Main "HOL-Library.Sublist"
begin

text \<open>
  The page component of \<^verbatim>\<open>src/pages/Index.tsx\<close>: the network fetcher \<^verbatim>\<open>fetchIPInfo\<close>, the
  environment inspector \<^verbatim>\<open>getBrowserInfo\<close> and the privacy scorer
  \<^verbatim>\<open>calculatePrivacyScore\<close>, as functions on the component's state. What they read from
  the browser is a parameter, what they throw is part of their result.
\<close>

section \<open>Strings\<close>

text \<open>
  A string is a \<open>char list\<close>. \<open>toLowerCase\<close> folds the letters A to Z and leaves every
  other character as it is: the three keywords of the scorer are ASCII, and the case
  mapping of characters outside ASCII is not modelled.
\<close>

definition toLowerCaseChar :: "char \<Rightarrow> char" where
  "toLowerCaseChar c =
     (case map_of (zip ''ABCDEFGHIJKLMNOPQRSTUVWXYZ'' ''abcdefghijklmnopqrstuvwxyz'') c of
        None \<Rightarrow> c
      | Some l \<Rightarrow> l)"

definition toLowerCase :: "string \<Rightarrow> string" where
  "toLowerCase s = map toLowerCaseChar s"

text \<open>\<^verbatim>\<open>s.includes(t)\<close>: \<open>t\<close> starts at some position of \<open>s\<close>.\<close>

fun includes_str :: "string \<Rightarrow> string \<Rightarrow> bool" where
  "includes_str [] t = (t = [])"
| "includes_str (c # cs) t = (prefix t (c # cs) \<or> includes_str cs t)"

text \<open>The class \<^verbatim>\<open>\d\<close> of a regular expression.\<close>

definition is_digit :: "char \<Rightarrow> bool" where
  "is_digit c = (c \<in> set ''0123456789'')"

text \<open>
  \<^verbatim>\<open>s.match(/tag(\d+)/)?.[1]\<close> for a literal \<open>tag\<close>: the matcher tries the positions of
  \<open>s\<close> from the left; at the first one where \<open>tag\<close> is followed by a digit, the group
  takes the whole run of digits. \<open>None\<close> is \<^verbatim>\<open>undefined\<close> (no match).
\<close>

fun match_digits :: "string \<Rightarrow> string \<Rightarrow> string option" where
  "match_digits tag [] = None"
| "match_digits tag (c # cs) =
     (let ds = takeWhile is_digit (drop (length tag) (c # cs))
      in if prefix tag (c # cs) \<and> ds \<noteq> [] then Some ds else match_digits tag cs)"

text \<open>\<^verbatim>\<open>m || 'Unknown'\<close> on a string or \<^verbatim>\<open>undefined\<close>: the empty string is falsy.\<close>

definition or_unknown :: "string option \<Rightarrow> string" where
  "or_unknown m = (case m of None \<Rightarrow> ''Unknown'' | Some v \<Rightarrow> if v = [] then ''Unknown'' else v)"

text \<open>A pixel count printed in a template literal: its decimal digits.\<close>

fun decimal :: "nat \<Rightarrow> string" where
  "decimal n =
     (if n < 10 then [''0123456789'' ! n]
      else decimal (n div 10) @ [''0123456789'' ! (n mod 10)])"

section \<open>Values at run time\<close>

text \<open>
  The body of the provider's response is parsed JSON, typed \<^verbatim>\<open>any\<close>: the field types of
  the interfaces are not checked at run time. A value is \<^verbatim>\<open>undefined\<close> (\<open>None\<close>) or a
  JSON value. \<open>JObj\<close> lists the entries of the parsed object, each key once; a number is
  falsy when it is zero (JSON has no literal for NaN).
\<close>

datatype json =
    JNull
  | JBool bool
  | JNum real
  | JStr string
  | JArr "json list"
  | JObj "(string \<times> json) list"

type_synonym jsval = "json option"

datatype js_error = TypeError | SyntaxError

fun truthy :: "jsval \<Rightarrow> bool" where
  "truthy None = False"
| "truthy (Some JNull) = False"
| "truthy (Some (JBool b)) = b"
| "truthy (Some (JNum x)) = (x \<noteq> 0)"
| "truthy (Some (JStr s)) = (s \<noteq> [])"
| "truthy (Some (JArr xs)) = True"
| "truthy (Some (JObj kvs)) = True"

text \<open>\<^verbatim>\<open>v || d\<close>\<close>

definition or_else :: "jsval \<Rightarrow> jsval \<Rightarrow> jsval" where
  "or_else v d = (if truthy v then v else d)"

text \<open>
  \<^verbatim>\<open>data.k\<close> for the eight keys the page reads (none of them is a built-in property of a
  string, number, boolean or array): reading a property of \<^verbatim>\<open>null\<close> throws, an object
  gives its entry or \<^verbatim>\<open>undefined\<close>, every other value gives \<^verbatim>\<open>undefined\<close>.
\<close>

fun get_prop :: "json \<Rightarrow> string \<Rightarrow> js_error + jsval" where
  "get_prop JNull k = Inl TypeError"
| "get_prop (JObj kvs) k = Inr (map_of kvs k)"
| "get_prop (JBool b) k = Inr None"
| "get_prop (JNum x) k = Inr None"
| "get_prop (JStr s) k = Inr None"
| "get_prop (JArr xs) k = Inr None"

definition then_do :: "js_error + 'a \<Rightarrow> ('a \<Rightarrow> js_error + 'b) \<Rightarrow> js_error + 'b" where
  "then_do m f = (case m of Inl e \<Rightarrow> Inl e | Inr v \<Rightarrow> f v)"

text \<open>\<^verbatim>\<open>v.toLowerCase()\<close>: only a string has the method.\<close>

fun call_toLowerCase :: "jsval \<Rightarrow> js_error + string" where
  "call_toLowerCase (Some (JStr s)) = Inr (toLowerCase s)"
| "call_toLowerCase v = Inl TypeError"

section \<open>The page's data\<close>

record IPInfo =
  ip :: jsval
  country :: jsval
  region :: jsval
  city :: jsval
  isp :: jsval
  timezone :: jsval
  lat :: jsval
  lon :: jsval

record BrowserInfo =
  browser :: string
  version :: string
  os :: string
  platform :: string
  language :: string
  userAgent :: string
  cookiesEnabled :: bool
  javaEnabled :: bool
  screen :: string
  viewport :: string

datatype level = Low | Medium | High

text \<open>The component's state slots, with the values \<^verbatim>\<open>useState\<close> starts them at.\<close>

record page_state =
  ipInfo :: "IPInfo option"
  browserInfo :: "BrowserInfo option"
  loading :: bool
  privacyScore :: int
  securityLevel :: level

definition initial_state :: page_state where
  "initial_state =
     \<lparr>ipInfo = None, browserInfo = None, loading = True, privacyScore = 0,
      securityLevel = Medium\<rparr>"

text \<open>
  What the code reads from \<^verbatim>\<open>location\<close>, \<^verbatim>\<open>navigator\<close>, \<^verbatim>\<open>window\<close> and \<^verbatim>\<open>screen\<close>.
  \<open>nav_geolocation\<close> and \<open>window_java\<close> say whether the object is there.
\<close>

record environment =
  location_protocol :: string
  nav_userAgent :: string
  nav_platform :: string
  nav_language :: string
  nav_cookieEnabled :: bool
  nav_geolocation :: bool
  window_java :: bool
  screen_width :: nat
  screen_height :: nat
  window_innerWidth :: nat
  window_innerHeight :: nat

text \<open>
  What \<^verbatim>\<open>await fetch(...)\<close> gives: a rejection, or a response with its status and its body,
  \<open>None\<close> when the body's text is not JSON.
\<close>

record response =
  status :: nat
  body :: "json option"

text \<open>The outcome of a statement: the page state it leaves and what it throws, if anything.\<close>

type_synonym outcome = "page_state \<times> js_error option"

section \<open>The privacy scorer\<close>

definition calculatePrivacyScore :: "environment \<Rightarrow> IPInfo \<Rightarrow> page_state \<Rightarrow> outcome" where
  "calculatePrivacyScore env ipData st =
     (let score = (100 :: int);
          score = (if \<not> includes_str (location_protocol env) ''https'' then score - 20 else score);
          score = (if nav_cookieEnabled env then score - 10 else score);
          score = (if nav_geolocation env then score - 15 else score)
      in case call_toLowerCase (isp ipData) of
           Inl e \<Rightarrow> (st, Some e)
         | Inr name \<Rightarrow>
             if includes_str name ''google'' \<or> includes_str name ''cloudflare''
             then (st\<lparr>securityLevel := High, privacyScore := max (score - 5) 0\<rparr>, None)
             else if includes_str name ''residential''
             then (st\<lparr>securityLevel := Low, privacyScore := max (score - 15) 0\<rparr>, None)
             else (st\<lparr>securityLevel := Medium, privacyScore := max score 0\<rparr>, None))"

section \<open>The network fetcher\<close>

text \<open>\<^verbatim>\<open>response.json()\<close>\<close>

definition response_json :: "response \<Rightarrow> js_error + json" where
  "response_json r = (case body r of None \<Rightarrow> Inl SyntaxError | Some d \<Rightarrow> Inr d)"

definition formattedData :: "json \<Rightarrow> js_error + IPInfo" where
  "formattedData data =
     then_do (get_prop data ''ip'') (\<lambda>v_ip.
     then_do (get_prop data ''country_name'') (\<lambda>v_country.
     then_do (get_prop data ''region'') (\<lambda>v_region.
     then_do (get_prop data ''city'') (\<lambda>v_city.
     then_do (get_prop data ''org'') (\<lambda>v_org.
     then_do (get_prop data ''timezone'') (\<lambda>v_timezone.
     then_do (get_prop data ''latitude'') (\<lambda>v_latitude.
     then_do (get_prop data ''longitude'') (\<lambda>v_longitude.
       Inr \<lparr>ip = or_else v_ip (Some (JStr ''Unknown'')),
            country = or_else v_country (Some (JStr ''Unknown'')),
            region = or_else v_region (Some (JStr ''Unknown'')),
            city = or_else v_city (Some (JStr ''Unknown'')),
            isp = or_else v_org (Some (JStr ''Unknown'')),
            timezone = or_else v_timezone (Some (JStr ''Unknown'')),
            lat = or_else v_latitude (Some (JNum 0)),
            lon = or_else v_longitude (Some (JNum 0))\<rparr>))))))))"

definition fallbackData :: IPInfo where
  "fallbackData =
     \<lparr>ip = Some (JStr ''192.168.1.1''),
      country = Some (JStr ''Demo Country''),
      region = Some (JStr ''Demo Region''),
      city = Some (JStr ''Demo City''),
      isp = Some (JStr ''Demo ISP''),
      timezone = Some (JStr ''UTC''),
      lat = Some (JNum 0),
      lon = Some (JNum 0)\<rparr>"

text \<open>The body of \<^verbatim>\<open>try\<close>: a throw leaves the state as the statements before it made it.\<close>

definition try_block :: "environment \<Rightarrow> js_error + response \<Rightarrow> page_state \<Rightarrow> outcome" where
  "try_block env fetched st =
     (case fetched of
        Inl e \<Rightarrow> (st, Some e)
      | Inr r \<Rightarrow>
          (case response_json r of
             Inl e \<Rightarrow> (st, Some e)
           | Inr data \<Rightarrow>
               (case formattedData data of
                  Inl e \<Rightarrow> (st, Some e)
                | Inr fd \<Rightarrow> calculatePrivacyScore env fd (st\<lparr>ipInfo := Some fd\<rparr>))))"

definition catch_block :: "environment \<Rightarrow> page_state \<Rightarrow> outcome" where
  "catch_block env st = calculatePrivacyScore env fallbackData (st\<lparr>ipInfo := Some fallbackData\<rparr>)"

text \<open>
  \<open>fetched\<close> is what the request settles to, \<open>env\<close> and \<open>st\<close> are the environment and the
  state when it does. \<^verbatim>\<open>finally\<close> runs on every path and keeps a pending exception.
\<close>

definition fetchIPInfo :: "environment \<Rightarrow> js_error + response \<Rightarrow> page_state \<Rightarrow> outcome" where
  "fetchIPInfo env fetched st =
     (let (st1, thrown1) = try_block env fetched st;
          (st2, thrown2) = (case thrown1 of None \<Rightarrow> (st1, None) | Some e \<Rightarrow> catch_block env st1)
      in (st2\<lparr>loading := False\<rparr>, thrown2))"

section \<open>The environment inspector\<close>

definition getBrowserInfo :: "environment \<Rightarrow> page_state \<Rightarrow> page_state" where
  "getBrowserInfo env st =
     (let ua = nav_userAgent env;
          (b, v) =
            (if includes_str ua ''Chrome'' then (''Chrome'', or_unknown (match_digits ''Chrome/'' ua))
             else if includes_str ua ''Firefox'' then (''Firefox'', or_unknown (match_digits ''Firefox/'' ua))
             else if includes_str ua ''Safari'' then (''Safari'', or_unknown (match_digits ''Version/'' ua))
             else if includes_str ua ''Edge'' then (''Edge'', or_unknown (match_digits ''Edge/'' ua))
             else (''Unknown'', ''Unknown''));
          opsys =
            (if includes_str ua ''Windows'' then ''Windows''
             else if includes_str ua ''Mac'' then ''macOS''
             else if includes_str ua ''Linux'' then ''Linux''
             else if includes_str ua ''Android'' then ''Android''
             else if includes_str ua ''iOS'' then ''iOS''
             else ''Unknown'');
          info =
            \<lparr>browser = b, version = v, os = opsys,
             platform = nav_platform env,
             language = nav_language env,
             userAgent = nav_userAgent env,
             cookiesEnabled = nav_cookieEnabled env,
             javaEnabled = window_java env,
             screen = decimal (screen_width env) @ ''x'' @ decimal (screen_height env),
             viewport = decimal (window_innerWidth env) @ ''x'' @ decimal (window_innerHeight env)\<rparr>
      in st\<lparr>browserInfo := Some info\<rparr>)"

section \<open>The specification's vocabulary\<close>

text \<open>
  An ordered list of rules (pattern, variant), tried in sequence against the text; the
  first pattern that occurs in it decides, and \<open>None\<close> says that no pattern occurs.
\<close>

fun first_match :: "(string \<times> 'a) list \<Rightarrow> string \<Rightarrow> 'a option" where
  "first_match [] s = None"
| "first_match ((pat, v) # rules) s = (if sublist pat s then Some v else first_match rules s)"

text \<open>The browser rules: pattern, family, and the text that precedes the version.\<close>

definition browser_rules :: "(string \<times> string \<times> string) list" where
  "browser_rules =
     [(''Chrome'', ''Chrome'', ''Chrome/''),
      (''Firefox'', ''Firefox'', ''Firefox/''),
      (''Safari'', ''Safari'', ''Version/''),
      (''Edge'', ''Edge'', ''Edge/'')]"

text \<open>The operating-system rules: pattern and the name reported.\<close>

definition os_rules :: "(string \<times> string) list" where
  "os_rules =
     [(''Windows'', ''Windows''),
      (''Mac'', ''macOS''),
      (''Linux'', ''Linux''),
      (''Android'', ''Android''),
      (''iOS'', ''iOS'')]"

text \<open>Some stretch of \<open>name\<close> spells \<open>kw\<close> when letter case is ignored.\<close>

definition contains_ignoring_case :: "string \<Rightarrow> string \<Rightarrow> bool" where
  "contains_ignoring_case name kw =
     (\<exists>p m q. name = p @ m @ q \<and> toLowerCase m = toLowerCase kw)"

text \<open>
  After the prefix \<open>p\<close>, the text continues with \<open>tag\<close> and then with the digits \<open>ds\<close>, at
  least one, and no further digit.
\<close>

definition occurs_at :: "string \<Rightarrow> string \<Rightarrow> string \<Rightarrow> string \<Rightarrow> bool" where
  "occurs_at tag s p ds =
     (\<exists>q. s = p @ tag @ ds @ q \<and> ds \<noteq> [] \<and> list_all is_digit ds \<and>
          (case q of [] \<Rightarrow> True | c # _ \<Rightarrow> \<not> is_digit c))"

text \<open>\<open>ds\<close> is the number at the leftmost place where \<open>tag\<close> is followed by digits.\<close>

definition first_occurrence :: "string \<Rightarrow> string \<Rightarrow> string \<Rightarrow> bool" where
  "first_occurrence tag s ds =
     (\<exists>p. occurs_at tag s p ds \<and> (\<forall>p' ds'. occurs_at tag s p' ds' \<longrightarrow> length p \<le> length p'))"

text \<open>
  The version extracted with \<open>tag\<close>: the number at its first occurrence, "Unknown" when
  \<open>tag\<close> is nowhere followed by a digit.
\<close>

definition extracted :: "string \<Rightarrow> string \<Rightarrow> string \<Rightarrow> bool" where
  "extracted tag s v =
     (first_occurrence tag s v \<or> (\<not> (\<exists>p ds. occurs_at tag s p ds) \<and> v = ''Unknown''))"

text \<open>The deductions of the table that do not depend on the provider.\<close>

definition ambient_deductions :: "bool \<Rightarrow> bool \<Rightarrow> bool \<Rightarrow> int" where
  "ambient_deductions secure cookies geo =
     (if secure then 0 else 20) + (if cookies then 10 else 0) + (if geo then 15 else 0)"

text \<open>The field \<open>k\<close> of a response, \<open>None\<close> when it is missing.\<close>

definition field_of :: "json \<Rightarrow> string \<Rightarrow> jsval" where
  "field_of data k = (case data of JObj kvs \<Rightarrow> map_of kvs k | _ \<Rightarrow> None)"

text \<open>
  A field resolves to its sentinel when it is missing or falsy, to itself otherwise, and
  is neither \<^verbatim>\<open>undefined\<close> nor \<^verbatim>\<open>null\<close>.
\<close>

definition resolved :: "jsval \<Rightarrow> json \<Rightarrow> jsval \<Rightarrow> bool" where
  "resolved v sentinel out =
     (out = (if truthy v then v else Some sentinel) \<and> out \<noteq> None \<and> out \<noteq> Some JNull)"

section \<open>Sample inputs\<close>

text \<open>An environment and a network record with the fields that matter left open.\<close>

definition env_with :: "string \<Rightarrow> string \<Rightarrow> bool \<Rightarrow> bool \<Rightarrow> environment" where
  "env_with proto ua cookies geo =
     \<lparr>location_protocol = proto, nav_userAgent = ua, nav_platform = ''Win32'',
      nav_language = ''en-US'', nav_cookieEnabled = cookies, nav_geolocation = geo,
      window_java = False, screen_width = 1920, screen_height = 1080,
      window_innerWidth = 1280, window_innerHeight = 720\<rparr>"

definition record_with :: "string \<Rightarrow> IPInfo" where
  "record_with provider =
     \<lparr>ip = Some (JStr ''203.0.113.7''), country = Some (JStr ''Norway''),
      region = Some (JStr ''Oslo''), city = Some (JStr ''Oslo''),
      isp = Some (JStr provider), timezone = Some (JStr ''Europe/Oslo''),
      lat = Some (JNum 59.9), lon = Some (JNum 10.7)\<rparr>"

text \<open>
  An error response with a JSON body, the record without any known field, and a body
  with missing and falsy fields.
\<close>

definition rate_limited :: response where
  "rate_limited =
     \<lparr>status = 429,
      body = Some (JObj [(''error'', JBool True), (''reason'', JStr ''RateLimited'')])\<rparr>"

definition unknownData :: IPInfo where
  "unknownData =
     \<lparr>ip = Some (JStr ''Unknown''), country = Some (JStr ''Unknown''),
      region = Some (JStr ''Unknown''), city = Some (JStr ''Unknown''),
      isp = Some (JStr ''Unknown''), timezone = Some (JStr ''Unknown''),
      lat = Some (JNum 0), lon = Some (JNum 0)\<rparr>"

definition partial_body :: json where
  "partial_body =
     JObj [(''ip'', JStr ''203.0.113.7''), (''city'', JStr ''''), (''org'', JNull),
           (''latitude'', JNum 0), (''longitude'', JNum 10.7), (''timezone'', JBool False)]"

text \<open>
  User agents: a desktop browser, a phone, an application that names Android only, a
  command-line client.
\<close>

definition chrome_ua :: string where
  "chrome_ua = ''Mozilla/5.0 (Windows NT 10.0; Win64; x64) AppleWebKit/537.36 (KHTML, like Gecko) Chrome/120.0.0.0 Safari/537.36''"

definition android_ua :: string where
  "android_ua = ''Mozilla/5.0 (Linux; Android 13; Pixel 7) AppleWebKit/537.36 (KHTML, like Gecko) Chrome/116.0.0.0 Mobile Safari/537.36''"

definition bare_android_ua :: string where
  "bare_android_ua = ''ExampleApp/2.1 (Android 13)''"

definition curl_ua :: string where
  "curl_ua = ''curl/8.4.0''"

section \<open>Facts about strings\<close>

lemma includes_str_iff_sublist: "includes_str s t \<longleftrightarrow> sublist t s"
  by (induction s) (auto simp: sublist_Cons_right)

lemma sublist_map_iff: "sublist t (map f s) \<longleftrightarrow> (\<exists>p m q. s = p @ m @ q \<and> map f m = t)"
proof
  assume "sublist t (map f s)"
  then obtain a b where "map f s = a @ t @ b" by (auto simp: sublist_def)
  then obtain p r where s1: "s = p @ r" and r: "map f r = t @ b"
    by (metis map_eq_append_conv)
  from r obtain m q where "r = m @ q" and "map f m = t"
    by (metis map_eq_append_conv)
  with s1 show "\<exists>p m q. s = p @ m @ q \<and> map f m = t" by blast
next
  assume "\<exists>p m q. s = p @ m @ q \<and> map f m = t"
  then obtain p m q where "s = p @ m @ q" and "map f m = t" by blast
  then have "map f s = map f p @ t @ map f q" by simp
  then show "sublist t (map f s)" unfolding sublist_def by blast
qed

lemma includes_toLowerCase:
  "toLowerCase kw = kw \<Longrightarrow> includes_str (toLowerCase name) kw \<longleftrightarrow> contains_ignoring_case name kw"
  by (simp add: includes_str_iff_sublist contains_ignoring_case_def toLowerCase_def sublist_map_iff)

lemma lower_keywords:
  "toLowerCase ''google'' = ''google''"
  "toLowerCase ''cloudflare'' = ''cloudflare''"
  "toLowerCase ''residential'' = ''residential''"
  by (simp_all add: toLowerCase_def toLowerCaseChar_def)

lemma provider_tests:
  "includes_str (toLowerCase name) ''google'' \<longleftrightarrow> contains_ignoring_case name ''google''"
  "includes_str (toLowerCase name) ''cloudflare'' \<longleftrightarrow> contains_ignoring_case name ''cloudflare''"
  "includes_str (toLowerCase name) ''residential'' \<longleftrightarrow> contains_ignoring_case name ''residential''"
  by (simp_all add: includes_toLowerCase lower_keywords)

lemma scorer_on_string:
  assumes "isp ipData = Some (JStr name)"
  shows "calculatePrivacyScore env ipData st =
           (st\<lparr>securityLevel :=
                 (if contains_ignoring_case name ''google'' \<or> contains_ignoring_case name ''cloudflare'' then High
                  else if contains_ignoring_case name ''residential'' then Low else Medium),
               privacyScore :=
                 100 - ambient_deductions (sublist ''https'' (location_protocol env))
                         (nav_cookieEnabled env) (nav_geolocation env)
                     - (if contains_ignoring_case name ''google'' \<or> contains_ignoring_case name ''cloudflare'' then 5
                        else if contains_ignoring_case name ''residential'' then 15 else 0)\<rparr>,
            None)"
  using assms
  by (simp add: calculatePrivacyScore_def Let_def provider_tests ambient_deductions_def
      includes_str_iff_sublist [of "location_protocol env"])

section \<open>Facts about the version pattern\<close>

lemma occurs_at_iff:
  "occurs_at tag s p ds \<longleftrightarrow>
     (\<exists>r. s = p @ r \<and> prefix tag r \<and> ds = takeWhile is_digit (drop (length tag) r) \<and> ds \<noteq> [])"
proof
  assume "occurs_at tag s p ds"
  then obtain q where s: "s = p @ tag @ ds @ q" and ne: "ds \<noteq> []" and dg: "list_all is_digit ds"
    and q: "case q of [] \<Rightarrow> True | c # _ \<Rightarrow> \<not> is_digit c"
    by (auto simp: occurs_at_def)
  from q have "takeWhile is_digit q = []" by (cases q) auto
  with dg have "takeWhile is_digit (ds @ q) = ds"
    by (simp add: list_all_iff)
  with s ne show "\<exists>r. s = p @ r \<and> prefix tag r \<and> ds = takeWhile is_digit (drop (length tag) r) \<and> ds \<noteq> []"
    by (intro exI [of _ "tag @ ds @ q"]) simp
next
  assume "\<exists>r. s = p @ r \<and> prefix tag r \<and> ds = takeWhile is_digit (drop (length tag) r) \<and> ds \<noteq> []"
  then obtain r where s: "s = p @ r" and pr: "prefix tag r"
    and ds: "ds = takeWhile is_digit (drop (length tag) r)" and ne: "ds \<noteq> []"
    by blast
  from pr obtain rest where r: "r = tag @ rest" by (auto simp: prefix_def)
  define q where "q = dropWhile is_digit rest"
  from ds r have ds': "ds = takeWhile is_digit rest" by simp
  have "rest = ds @ q" by (simp add: ds' q_def)
  moreover have "list_all is_digit ds"
    by (auto simp: ds' list_all_iff dest: set_takeWhileD)
  moreover have "case q of [] \<Rightarrow> True | c # _ \<Rightarrow> \<not> is_digit c"
  proof (cases q)
    case Nil
    then show ?thesis by simp
  next
    case (Cons c q')
    then have "dropWhile is_digit rest \<noteq> []" by (simp add: q_def)
    then have "\<not> is_digit (hd (dropWhile is_digit rest))" by (rule hd_dropWhile)
    with Cons show ?thesis by (simp add: q_def)
  qed
  ultimately show "occurs_at tag s p ds"
    using s r ne by (auto simp: occurs_at_def)
qed

lemma occurs_at_Nil: "\<not> occurs_at tag [] p ds"
  by (auto simp: occurs_at_iff)

lemma occurs_at_Cons:
  "occurs_at tag (c # cs) p ds \<longleftrightarrow>
     (p = [] \<and> prefix tag (c # cs) \<and> ds = takeWhile is_digit (drop (length tag) (c # cs)) \<and> ds \<noteq> []) \<or>
     (\<exists>p'. p = c # p' \<and> occurs_at tag cs p' ds)"
  by (cases p) (auto simp: occurs_at_iff)

lemma match_digits_None: "match_digits tag s = None \<longleftrightarrow> \<not> (\<exists>p ds. occurs_at tag s p ds)"
proof (induction s)
  case Nil
  then show ?case by (simp add: occurs_at_Nil)
next
  case (Cons c cs)
  show ?case
  proof (cases "prefix tag (c # cs) \<and> takeWhile is_digit (drop (length tag) (c # cs)) \<noteq> []")
    case True
    then have "occurs_at tag (c # cs) [] (takeWhile is_digit (drop (length tag) (c # cs)))"
      by (simp add: occurs_at_Cons)
    with True show ?thesis by (auto simp: Let_def)
  next
    case False
    then have "match_digits tag (c # cs) = match_digits tag cs" by (auto simp: Let_def)
    moreover from False have "(\<exists>p ds. occurs_at tag (c # cs) p ds) \<longleftrightarrow> (\<exists>p ds. occurs_at tag cs p ds)"
      by (auto simp: occurs_at_Cons)
    ultimately show ?thesis using Cons.IH by simp
  qed
qed

lemma match_digits_Some: "match_digits tag s = Some ds \<longleftrightarrow> first_occurrence tag s ds"
proof (induction s)
  case Nil
  then show ?case by (simp add: first_occurrence_def occurs_at_Nil)
next
  case (Cons c cs)
  let ?here = "takeWhile is_digit (drop (length tag) (c # cs))"
  show ?case
  proof (cases "prefix tag (c # cs) \<and> ?here \<noteq> []")
    case True
    then have m: "match_digits tag (c # cs) = Some ?here" by (simp add: Let_def)
    from True have o: "occurs_at tag (c # cs) [] ?here" by (simp add: occurs_at_Cons)
    have "first_occurrence tag (c # cs) ds \<longleftrightarrow> ds = ?here"
    proof
      assume "first_occurrence tag (c # cs) ds"
      then obtain p where p: "occurs_at tag (c # cs) p ds"
        and least: "\<forall>p' ds'. occurs_at tag (c # cs) p' ds' \<longrightarrow> length p \<le> length p'"
        by (auto simp: first_occurrence_def)
      from least o have "p = []" by fastforce
      with p show "ds = ?here" by (simp add: occurs_at_Cons)
    next
      assume "ds = ?here"
      with o show "first_occurrence tag (c # cs) ds"
        by (auto simp: first_occurrence_def)
    qed
    with m show ?thesis by auto
  next
    case False
    then have m: "match_digits tag (c # cs) = match_digits tag cs" by (auto simp: Let_def)
    from False have o: "occurs_at tag (c # cs) p ds' \<longleftrightarrow> (\<exists>p'. p = c # p' \<and> occurs_at tag cs p' ds')"
      for p ds'
      by (auto simp: occurs_at_Cons)
    have "first_occurrence tag (c # cs) ds \<longleftrightarrow> first_occurrence tag cs ds"
    proof
      assume "first_occurrence tag (c # cs) ds"
      then obtain p where p: "occurs_at tag (c # cs) p ds"
        and least: "\<forall>p' ds'. occurs_at tag (c # cs) p' ds' \<longrightarrow> length p \<le> length p'"
        by (auto simp: first_occurrence_def)
      from p o obtain p0 where p0: "p = c # p0" "occurs_at tag cs p0 ds" by blast
      have "length p0 \<le> length p'" if "occurs_at tag cs p' ds'" for p' ds'
      proof -
        from that o have "occurs_at tag (c # cs) (c # p') ds'" by blast
        with least have "length p \<le> length (c # p')" by blast
        with p0 show ?thesis by simp
      qed
      with p0 show "first_occurrence tag cs ds"
        by (auto simp: first_occurrence_def)
    next
      assume "first_occurrence tag cs ds"
      then obtain p0 where p0: "occurs_at tag cs p0 ds"
        and least: "\<forall>p' ds'. occurs_at tag cs p' ds' \<longrightarrow> length p0 \<le> length p'"
        by (auto simp: first_occurrence_def)
      from p0 o have "occurs_at tag (c # cs) (c # p0) ds" by blast
      moreover have "length (c # p0) \<le> length p'" if "occurs_at tag (c # cs) p' ds'" for p' ds'
      proof -
        from that o obtain p1 where "p' = c # p1" "occurs_at tag cs p1 ds'" by blast
        with least show ?thesis by auto
      qed
      ultimately show "first_occurrence tag (c # cs) ds"
        unfolding first_occurrence_def by blast
    qed
    with m Cons.IH show ?thesis by simp
  qed
qed

lemma match_digits_nonempty: "match_digits tag s = Some ds \<Longrightarrow> ds \<noteq> []"
  by (induction s) (auto simp: Let_def split: if_splits)

lemma or_unknown_extracted: "extracted tag s (or_unknown (match_digits tag s))"
proof (cases "match_digits tag s")
  case None
  then have "\<not> (\<exists>p ds. occurs_at tag s p ds)"
    by (simp add: match_digits_None)
  with None show ?thesis
    by (simp add: extracted_def or_unknown_def)
next
  case (Some ds)
  then have "ds \<noteq> []" by (rule match_digits_nonempty)
  with Some show ?thesis
    by (simp add: extracted_def or_unknown_def match_digits_Some [symmetric])
qed

section \<open>Facts about the inspector\<close>

lemma getBrowserInfo_fields:
  "\<exists>info. browserInfo (getBrowserInfo env st) = Some info \<and>
     (browser info, version info) =
       (if sublist ''Chrome'' (nav_userAgent env)
        then (''Chrome'', or_unknown (match_digits ''Chrome/'' (nav_userAgent env)))
        else if sublist ''Firefox'' (nav_userAgent env)
        then (''Firefox'', or_unknown (match_digits ''Firefox/'' (nav_userAgent env)))
        else if sublist ''Safari'' (nav_userAgent env)
        then (''Safari'', or_unknown (match_digits ''Version/'' (nav_userAgent env)))
        else if sublist ''Edge'' (nav_userAgent env)
        then (''Edge'', or_unknown (match_digits ''Edge/'' (nav_userAgent env)))
        else (''Unknown'', ''Unknown'')) \<and>
     os info =
       (if sublist ''Windows'' (nav_userAgent env) then ''Windows''
        else if sublist ''Mac'' (nav_userAgent env) then ''macOS''
        else if sublist ''Linux'' (nav_userAgent env) then ''Linux''
        else if sublist ''Android'' (nav_userAgent env) then ''Android''
        else if sublist ''iOS'' (nav_userAgent env) then ''iOS''
        else ''Unknown'')"
  by (simp add: getBrowserInfo_def Let_def includes_str_iff_sublist split: prod.splits)

lemma chrome_run:
  "browserInfo (getBrowserInfo (env_with ''https:'' chrome_ua True True) initial_state) =
     Some \<lparr>browser = ''Chrome'', version = ''120'', os = ''Windows'',
           platform = ''Win32'', language = ''en-US'', userAgent = chrome_ua,
           cookiesEnabled = True, javaEnabled = False,
           screen = ''1920x1080'', viewport = ''1280x720''\<rparr>"
  by (simp add: getBrowserInfo_def Let_def env_with_def chrome_ua_def or_unknown_def is_digit_def)


lemma sample_tests:
  "sublist ''Chrome'' chrome_ua" "sublist ''Safari'' chrome_ua" "sublist ''Windows'' chrome_ua"
  "\<not> sublist ''Chrome'' curl_ua" "\<not> sublist ''Firefox'' curl_ua"
  "\<not> sublist ''Safari'' curl_ua" "\<not> sublist ''Edge'' curl_ua"
  "\<not> sublist ''Windows'' curl_ua" "\<not> sublist ''Mac'' curl_ua" "\<not> sublist ''Linux'' curl_ua"
  "\<not> sublist ''Android'' curl_ua" "\<not> sublist ''iOS'' curl_ua"
  "\<not> sublist ''Windows'' android_ua" "\<not> sublist ''Mac'' android_ua"
  "sublist ''Linux'' android_ua" "sublist ''Android'' android_ua"
  "\<not> sublist ''Windows'' bare_android_ua" "\<not> sublist ''Mac'' bare_android_ua"
  "\<not> sublist ''Linux'' bare_android_ua" "sublist ''Android'' bare_android_ua"
  by (simp_all add: includes_str_iff_sublist [symmetric] chrome_ua_def curl_ua_def android_ua_def
      bare_android_ua_def)

section \<open>Facts about the fetcher\<close>

lemma get_prop_field_of: "data \<noteq> JNull \<Longrightarrow> get_prop data k = Inr (field_of data k)"
  by (cases data) (simp_all add: field_of_def)

lemma resolved_or_else:
  "sentinel \<noteq> JNull \<Longrightarrow> resolved v sentinel (or_else v (Some sentinel))"
  by (cases v rule: truthy.cases) (simp_all add: resolved_def or_else_def)

lemma formattedData_not_null:
  "data \<noteq> JNull \<Longrightarrow>
   formattedData data =
     Inr \<lparr>ip = or_else (field_of data ''ip'') (Some (JStr ''Unknown'')),
          country = or_else (field_of data ''country_name'') (Some (JStr ''Unknown'')),
          region = or_else (field_of data ''region'') (Some (JStr ''Unknown'')),
          city = or_else (field_of data ''city'') (Some (JStr ''Unknown'')),
          isp = or_else (field_of data ''org'') (Some (JStr ''Unknown'')),
          timezone = or_else (field_of data ''timezone'') (Some (JStr ''Unknown'')),
          lat = or_else (field_of data ''latitude'') (Some (JNum 0)),
          lon = or_else (field_of data ''longitude'') (Some (JNum 0))\<rparr>"
  by (simp add: formattedData_def then_do_def get_prop_field_of)

lemma scorer_fallback_returns: "snd (calculatePrivacyScore env fallbackData st) = None"
proof -
  have "isp fallbackData = Some (JStr ''Demo ISP'')"
    by (simp add: fallbackData_def)
  then show ?thesis
    by (simp add: scorer_on_string)
qed

lemma scorer_keeps_ipInfo: "ipInfo (fst (calculatePrivacyScore env ipData st)) = ipInfo st"
  by (simp add: calculatePrivacyScore_def Let_def split: sum.splits)

lemma catch_block_fallback:
  "snd (catch_block env st) = None \<and> ipInfo (fst (catch_block env st)) = Some fallbackData"
  by (simp add: catch_block_def scorer_fallback_returns scorer_keeps_ipInfo)

lemma fetchIPInfo_cases:
  "fetchIPInfo env fetched st =
     (case snd (try_block env fetched st) of
        None \<Rightarrow> ((fst (try_block env fetched st))\<lparr>loading := False\<rparr>, None)
      | Some e \<Rightarrow> ((fst (catch_block env (fst (try_block env fetched st))))\<lparr>loading := False\<rparr>,
                   snd (catch_block env (fst (try_block env fetched st)))))"
  by (simp add: fetchIPInfo_def Let_def split: prod.splits option.splits)

lemma try_block_mapped:
  assumes "body r = Some data" and "formattedData data = Inr fd" and "isp fd = Some (JStr name)"
  shows "snd (try_block env (Inr r) st) = None"
    and "ipInfo (fst (try_block env (Inr r) st)) = Some fd"
  using assms
  by (simp_all add: try_block_def response_json_def scorer_on_string scorer_keeps_ipInfo)

lemma scorer_throws_on_non_string:
  "\<forall>name. isp ipData \<noteq> Some (JStr name) \<Longrightarrow> snd (calculatePrivacyScore env ipData st) \<noteq> None"
  by (cases "isp ipData" rule: call_toLowerCase.cases) (simp_all add: calculatePrivacyScore_def Let_def)

section \<open>The privacy scorer: claims\<close>

text \<open>
  C1. The scorer starts from 100 and subtracts, cumulatively: 20 when the protocol is not a
  secure one, 10 when cookies are enabled, 15 when the geolocation capability is there, 5
  when the provider's name contains "google" or "cloudflare" in any letter case, otherwise
  15 when it contains "residential" in any letter case. On an insecure connection with
  cookies and geolocation, the provider "ACME Residential Broadband" scores 40 with level
  low; on a secure connection without cookies and geolocation, "Cloudflare, Inc." scores 95
  with level high.
\<close>

theorem deduction_table:
  "(isp ipData = Some (JStr name) \<longrightarrow>
      snd (calculatePrivacyScore env ipData st) = None \<and>
      privacyScore (fst (calculatePrivacyScore env ipData st)) =
        100 - (if sublist ''https'' (location_protocol env) then 0 else 20)
            - (if nav_cookieEnabled env then 10 else 0)
            - (if nav_geolocation env then 15 else 0)
            - (if contains_ignoring_case name ''google'' \<or> contains_ignoring_case name ''cloudflare''
               then 5
               else if contains_ignoring_case name ''residential'' then 15 else 0)) \<and>
   (\<not> sublist ''https'' (location_protocol env1) \<and> nav_cookieEnabled env1 \<and> nav_geolocation env1 \<and>
    isp ipData1 = Some (JStr ''ACME Residential Broadband'') \<longrightarrow>
      calculatePrivacyScore env1 ipData1 st1 = (st1\<lparr>securityLevel := Low, privacyScore := 40\<rparr>, None)) \<and>
   (sublist ''https'' (location_protocol env2) \<and> \<not> nav_cookieEnabled env2 \<and> \<not> nav_geolocation env2 \<and>
    isp ipData2 = Some (JStr ''Cloudflare, Inc.'') \<longrightarrow>
      calculatePrivacyScore env2 ipData2 st2 = (st2\<lparr>securityLevel := High, privacyScore := 95\<rparr>, None))"
proof (intro conjI impI)
  assume "isp ipData = Some (JStr name)"
  then show "snd (calculatePrivacyScore env ipData st) = None"
    by (simp add: scorer_on_string)
next
  assume "isp ipData = Some (JStr name)"
  then show "privacyScore (fst (calculatePrivacyScore env ipData st)) =
        100 - (if sublist ''https'' (location_protocol env) then 0 else 20)
            - (if nav_cookieEnabled env then 10 else 0)
            - (if nav_geolocation env then 15 else 0)
            - (if contains_ignoring_case name ''google'' \<or> contains_ignoring_case name ''cloudflare''
               then 5
               else if contains_ignoring_case name ''residential'' then 15 else 0)"
    by (simp add: scorer_on_string ambient_deductions_def)
next
  assume a: "\<not> sublist ''https'' (location_protocol env1) \<and> nav_cookieEnabled env1 \<and> nav_geolocation env1 \<and>
    isp ipData1 = Some (JStr ''ACME Residential Broadband'')"
  have "\<not> includes_str (toLowerCase ''ACME Residential Broadband'') ''google''"
       "\<not> includes_str (toLowerCase ''ACME Residential Broadband'') ''cloudflare''"
       "includes_str (toLowerCase ''ACME Residential Broadband'') ''residential''"
    by (simp_all add: toLowerCase_def toLowerCaseChar_def)
  with a show "calculatePrivacyScore env1 ipData1 st1 = (st1\<lparr>securityLevel := Low, privacyScore := 40\<rparr>, None)"
    by (simp add: calculatePrivacyScore_def Let_def includes_str_iff_sublist [of "location_protocol env1"])
next
  assume a: "sublist ''https'' (location_protocol env2) \<and> \<not> nav_cookieEnabled env2 \<and> \<not> nav_geolocation env2 \<and>
    isp ipData2 = Some (JStr ''Cloudflare, Inc.'')"
  have "includes_str (toLowerCase ''Cloudflare, Inc.'') ''cloudflare''"
    by (simp add: toLowerCase_def toLowerCaseChar_def)
  with a show "calculatePrivacyScore env2 ipData2 st2 = (st2\<lparr>securityLevel := High, privacyScore := 95\<rparr>, None)"
    by (simp add: calculatePrivacyScore_def Let_def includes_str_iff_sublist [of "location_protocol env2"])
qed

theorem deduction_table_witness:
  "isp (record_with ''ACME Residential Broadband'') = Some (JStr ''ACME Residential Broadband'') \<and>
   \<not> sublist ''https'' (location_protocol (env_with ''http:'' ''Mozilla/5.0'' True True)) \<and>
   calculatePrivacyScore (env_with ''http:'' ''Mozilla/5.0'' True True)
       (record_with ''ACME Residential Broadband'') initial_state =
     (initial_state\<lparr>securityLevel := Low, privacyScore := 40\<rparr>, None) \<and>
   sublist ''https'' (location_protocol (env_with ''https:'' ''Mozilla/5.0'' False False)) \<and>
   calculatePrivacyScore (env_with ''https:'' ''Mozilla/5.0'' False False)
       (record_with ''Cloudflare, Inc.'') initial_state =
     (initial_state\<lparr>securityLevel := High, privacyScore := 95\<rparr>, None) \<and>
   privacyScore (fst (calculatePrivacyScore (env_with ''https:'' ''Mozilla/5.0'' True False)
       (record_with ''Example Telecom'') initial_state)) = 90"
proof -
  have p1: "\<not> sublist ''https'' ''http:''" and p2: "sublist ''https'' ''https:''"
    by (simp_all add: includes_str_iff_sublist [symmetric])
  have n: "\<not> contains_ignoring_case ''Example Telecom'' ''google''"
          "\<not> contains_ignoring_case ''Example Telecom'' ''cloudflare''"
          "\<not> contains_ignoring_case ''Example Telecom'' ''residential''"
    by (simp_all add: provider_tests [symmetric] toLowerCase_def toLowerCaseChar_def)
  show ?thesis
    using deduction_table [of "record_with ''Example Telecom''" "''Example Telecom''"
        "env_with ''https:'' ''Mozilla/5.0'' True False" initial_state
        "env_with ''http:'' ''Mozilla/5.0'' True True" "record_with ''ACME Residential Broadband''"
        initial_state
        "env_with ''https:'' ''Mozilla/5.0'' False False" "record_with ''Cloudflare, Inc.''"
        initial_state] p1 p2 n
    by (simp add: env_with_def record_with_def)
qed

text \<open>
  C2. For every network record and every setting of the ambient flags, the level depends on
  the provider's name alone: high when it contains "google" or "cloudflare" in any letter
  case, otherwise low when it contains "residential", otherwise medium. Another
  environment and another earlier state give the same level, and a name with both kinds of
  keyword gets high and the deduction of 5 only.
\<close>

theorem level_from_provider_name:
  "isp ipData = Some (JStr name) \<Longrightarrow>
   securityLevel (fst (calculatePrivacyScore env ipData st)) =
     (if contains_ignoring_case name ''google'' \<or> contains_ignoring_case name ''cloudflare'' then High
      else if contains_ignoring_case name ''residential'' then Low
      else Medium) \<and>
   securityLevel (fst (calculatePrivacyScore env' ipData st')) =
     securityLevel (fst (calculatePrivacyScore env ipData st)) \<and>
   ((contains_ignoring_case name ''google'' \<or> contains_ignoring_case name ''cloudflare'') \<and>
    contains_ignoring_case name ''residential'' \<longrightarrow>
      securityLevel (fst (calculatePrivacyScore env ipData st)) = High \<and>
      privacyScore (fst (calculatePrivacyScore env ipData st)) =
        100 - ambient_deductions (sublist ''https'' (location_protocol env))
                (nav_cookieEnabled env) (nav_geolocation env) - 5)"
  by (simp add: scorer_on_string)

theorem level_from_provider_name_witness:
  "isp (record_with ''Google Fiber Residential'') = Some (JStr ''Google Fiber Residential'') \<and>
   contains_ignoring_case ''Google Fiber Residential'' ''google'' \<and>
   contains_ignoring_case ''Google Fiber Residential'' ''residential'' \<and>
   securityLevel (fst (calculatePrivacyScore (env_with ''http:'' ''Mozilla/5.0'' True True)
       (record_with ''Google Fiber Residential'') initial_state)) = High \<and>
   securityLevel (fst (calculatePrivacyScore (env_with ''https:'' ''Mozilla/5.0'' False False)
       (record_with ''Google Fiber Residential'') (initial_state\<lparr>securityLevel := Low\<rparr>))) = High \<and>
   privacyScore (fst (calculatePrivacyScore (env_with ''http:'' ''Mozilla/5.0'' True True)
       (record_with ''Google Fiber Residential'') initial_state)) = 50"
proof -
  have c: "contains_ignoring_case ''Google Fiber Residential'' ''google''"
          "contains_ignoring_case ''Google Fiber Residential'' ''residential''"
    by (simp_all add: provider_tests [symmetric] toLowerCase_def toLowerCaseChar_def)
  have p: "\<not> sublist ''https'' ''http:''"
    by (simp add: includes_str_iff_sublist [symmetric])
  show ?thesis
    using level_from_provider_name [of "record_with ''Google Fiber Residential''"
        "''Google Fiber Residential''" "env_with ''http:'' ''Mozilla/5.0'' True True" initial_state
        "env_with ''https:'' ''Mozilla/5.0'' False False" "initial_state\<lparr>securityLevel := Low\<rparr>"] c p
    by (simp add: env_with_def record_with_def ambient_deductions_def)
qed

text \<open>
  C3. For every network record and every setting of the ambient flags, the scorer produces a
  score between 0 and 100, both included.
\<close>

theorem score_in_range:
  "isp ipData = Some (JStr name) \<Longrightarrow>
   snd (calculatePrivacyScore env ipData st) = None \<and>
   0 \<le> privacyScore (fst (calculatePrivacyScore env ipData st)) \<and>
   privacyScore (fst (calculatePrivacyScore env ipData st)) \<le> 100"
  by (simp add: scorer_on_string ambient_deductions_def)

theorem score_in_range_witness:
  "isp (record_with ''Example Telecom'') = Some (JStr ''Example Telecom'') \<and>
   snd (calculatePrivacyScore (env_with ''http:'' ''Mozilla/5.0'' True False)
       (record_with ''Example Telecom'') initial_state) = None \<and>
   0 \<le> privacyScore (fst (calculatePrivacyScore (env_with ''http:'' ''Mozilla/5.0'' True False)
       (record_with ''Example Telecom'') initial_state)) \<and>
   privacyScore (fst (calculatePrivacyScore (env_with ''http:'' ''Mozilla/5.0'' True False)
       (record_with ''Example Telecom'') initial_state)) \<le> 100"
  using score_in_range [of "record_with ''Example Telecom''" "''Example Telecom''"
      "env_with ''http:'' ''Mozilla/5.0'' True False" initial_state]
  by (simp add: record_with_def)

text \<open>
  C9. The deductions never add up to more than 60, so the score is the unclamped difference
  and is at least 40: the floor at 0 never applies.
\<close>

theorem score_at_least_40:
  "isp ipData = Some (JStr name) \<Longrightarrow>
   ambient_deductions (sublist ''https'' (location_protocol env))
       (nav_cookieEnabled env) (nav_geolocation env)
     + (if contains_ignoring_case name ''google'' \<or> contains_ignoring_case name ''cloudflare'' then 5
        else if contains_ignoring_case name ''residential'' then 15 else 0) \<le> 60 \<and>
   privacyScore (fst (calculatePrivacyScore env ipData st)) =
     100 - (ambient_deductions (sublist ''https'' (location_protocol env))
              (nav_cookieEnabled env) (nav_geolocation env)
            + (if contains_ignoring_case name ''google'' \<or> contains_ignoring_case name ''cloudflare''
               then 5
               else if contains_ignoring_case name ''residential'' then 15 else 0)) \<and>
   40 \<le> privacyScore (fst (calculatePrivacyScore env ipData st))"
  by (simp add: scorer_on_string ambient_deductions_def)

theorem score_at_least_40_witness:
  "isp (record_with ''ACME Residential Broadband'') = Some (JStr ''ACME Residential Broadband'') \<and>
   40 \<le> privacyScore (fst (calculatePrivacyScore (env_with ''http:'' ''Mozilla/5.0'' True True)
       (record_with ''ACME Residential Broadband'') initial_state))"
  using score_at_least_40 [of "record_with ''ACME Residential Broadband''"
      "''ACME Residential Broadband''" "env_with ''http:'' ''Mozilla/5.0'' True True" initial_state]
  by (simp add: record_with_def)

text \<open>
  C8. Two runs of the scorer on the same network record, in environments that agree on the
  transport test, the cookie flag and the geolocation capability, give the same score and
  the same level, whatever the page state was before each run.
\<close>

theorem scorer_deterministic:
  "isp ipData = Some (JStr name) \<Longrightarrow>
   includes_str (location_protocol env1) ''https'' = includes_str (location_protocol env2) ''https'' \<Longrightarrow>
   nav_cookieEnabled env1 = nav_cookieEnabled env2 \<Longrightarrow>
   nav_geolocation env1 = nav_geolocation env2 \<Longrightarrow>
   privacyScore (fst (calculatePrivacyScore env1 ipData st1)) =
     privacyScore (fst (calculatePrivacyScore env2 ipData st2)) \<and>
   securityLevel (fst (calculatePrivacyScore env1 ipData st1)) =
     securityLevel (fst (calculatePrivacyScore env2 ipData st2))"
  by (simp add: scorer_on_string includes_str_iff_sublist)

theorem scorer_deterministic_witness:
  "isp (record_with ''Cloudflare, Inc.'') = Some (JStr ''Cloudflare, Inc.'') \<and>
   includes_str (location_protocol (env_with ''https:'' ''Mozilla/5.0'' True False)) ''https'' =
     includes_str (location_protocol (env_with ''https:'' ''Opera/9.80'' True False)) ''https'' \<and>
   privacyScore (fst (calculatePrivacyScore (env_with ''https:'' ''Mozilla/5.0'' True False)
       (record_with ''Cloudflare, Inc.'') initial_state)) =
     privacyScore (fst (calculatePrivacyScore (env_with ''https:'' ''Opera/9.80'' True False)
       (record_with ''Cloudflare, Inc.'')
       (initial_state\<lparr>privacyScore := 12, securityLevel := Low, loading := False\<rparr>))) \<and>
   securityLevel (fst (calculatePrivacyScore (env_with ''https:'' ''Mozilla/5.0'' True False)
       (record_with ''Cloudflare, Inc.'') initial_state)) =
     securityLevel (fst (calculatePrivacyScore (env_with ''https:'' ''Opera/9.80'' True False)
       (record_with ''Cloudflare, Inc.'')
       (initial_state\<lparr>privacyScore := 12, securityLevel := Low, loading := False\<rparr>)))"
  using scorer_deterministic [of "record_with ''Cloudflare, Inc.''" "''Cloudflare, Inc.''"
      "env_with ''https:'' ''Mozilla/5.0'' True False" "env_with ''https:'' ''Opera/9.80'' True False"
      initial_state "initial_state\<lparr>privacyScore := 12, securityLevel := Low, loading := False\<rparr>"]
  by (simp add: record_with_def env_with_def)

section \<open>The network fetcher: claims\<close>

text \<open>
  C5, as stated, fails on the well-formed body \<^verbatim>\<open>null\<close>: reading its first field throws,
  no record is built from it, and the fetcher ends with the fallback record, whose address
  is not the sentinel.
\<close>

theorem mapping_counterexample:
  "formattedData JNull = Inl TypeError \<and>
   ipInfo (fst (fetchIPInfo (env_with ''https:'' ''Mozilla/5.0'' True True)
       (Inr \<lparr>status = 200, body = Some JNull\<rparr>) initial_state)) = Some fallbackData \<and>
   ip fallbackData \<noteq> Some (JStr ''Unknown'')"
  by (simp add: fetchIPInfo_cases try_block_def response_json_def formattedData_def then_do_def
      catch_block_fallback fallbackData_def)

text \<open>
  C5, amended. For every well-formed JSON response other than \<^verbatim>\<open>null\<close>, the mapping
  builds a record in which each field is resolved on its own: the six text fields to
  "Unknown" and the two coordinates to 0 when missing or falsy, to the response's value
  otherwise; no field is \<^verbatim>\<open>undefined\<close> or \<^verbatim>\<open>null\<close>.
\<close>

theorem mapping_per_field:
  "data \<noteq> JNull \<Longrightarrow>
   \<exists>r. formattedData data = Inr r \<and>
       resolved (field_of data ''ip'') (JStr ''Unknown'') (ip r) \<and>
       resolved (field_of data ''country_name'') (JStr ''Unknown'') (country r) \<and>
       resolved (field_of data ''region'') (JStr ''Unknown'') (region r) \<and>
       resolved (field_of data ''city'') (JStr ''Unknown'') (city r) \<and>
       resolved (field_of data ''org'') (JStr ''Unknown'') (isp r) \<and>
       resolved (field_of data ''timezone'') (JStr ''Unknown'') (timezone r) \<and>
       resolved (field_of data ''latitude'') (JNum 0) (lat r) \<and>
       resolved (field_of data ''longitude'') (JNum 0) (lon r)"
  by (simp add: formattedData_not_null resolved_or_else)

theorem mapping_per_field_witness:
  "partial_body \<noteq> JNull \<and>
   (\<exists>r. formattedData partial_body = Inr r \<and>
        ip r = Some (JStr ''203.0.113.7'') \<and> country r = Some (JStr ''Unknown'') \<and>
        region r = Some (JStr ''Unknown'') \<and> city r = Some (JStr ''Unknown'') \<and>
        isp r = Some (JStr ''Unknown'') \<and> timezone r = Some (JStr ''Unknown'') \<and>
        lat r = Some (JNum 0) \<and> lon r = Some (JNum 10.7))"
  using mapping_per_field [of partial_body]
  by (auto simp: partial_body_def resolved_def field_of_def)

text \<open>
  C4, as stated, fails on a response with a non-success status and a JSON body: the status
  is not read, the body is mapped field by field, and the record is the one of sentinels,
  not the fallback record.
\<close>

theorem fetch_counterexample:
  "status rate_limited = 429 \<and>
   fetchIPInfo (env_with ''https:'' ''Mozilla/5.0'' True True) (Inr rate_limited) initial_state =
     (initial_state\<lparr>ipInfo := Some unknownData, loading := False, privacyScore := 75,
        securityLevel := Medium\<rparr>, None) \<and>
   unknownData \<noteq> fallbackData"
proof -
  have f: "formattedData (JObj [(''error'', JBool True), (''reason'', JStr ''RateLimited'')]) =
             Inr unknownData"
    by (simp add: formattedData_def then_do_def or_else_def unknownData_def)
  have l: "toLowerCase ''Unknown'' = ''unknown''"
    by (simp add: toLowerCase_def toLowerCaseChar_def)
  have c: "calculatePrivacyScore (env_with ''https:'' ''Mozilla/5.0'' True True) unknownData st =
             (st\<lparr>securityLevel := Medium, privacyScore := 75\<rparr>, None)" for st
    by (simp add: calculatePrivacyScore_def Let_def unknownData_def env_with_def l)
  have d: "unknownData \<noteq> fallbackData"
    by (simp add: unknownData_def fallbackData_def)
  show ?thesis
    by (simp add: fetchIPInfo_def try_block_def response_json_def rate_limited_def f c d
        initial_state_def)
qed

text \<open>
  C4, amended. The fetcher always returns and no exception escapes it; it ends the loading
  state; whenever the \<^verbatim>\<open>try\<close> block throws, in particular when the request is rejected
  or the body is not JSON, the record is exactly the fallback record. The status of the
  response is never read and changes nothing. A JSON body whose mapping succeeds with a
  provider name that is a string gives the mapped record; the body \<^verbatim>\<open>null\<close>, and a body
  whose mapped provider name is not a string, make the \<^verbatim>\<open>try\<close> block throw and give the
  fallback record.
\<close>

theorem fetch_total_with_fallback:
  "snd (fetchIPInfo env fetched st) = None \<and>
   loading (fst (fetchIPInfo env fetched st)) = False \<and>
   (snd (try_block env fetched st) \<noteq> None \<longrightarrow>
      ipInfo (fst (fetchIPInfo env fetched st)) = Some fallbackData) \<and>
   (fetched = Inl e \<longrightarrow> ipInfo (fst (fetchIPInfo env fetched st)) = Some fallbackData) \<and>
   (fetched = Inr r \<and> body r = None \<longrightarrow>
      ipInfo (fst (fetchIPInfo env fetched st)) = Some fallbackData) \<and>
   fetchIPInfo env (Inr (r'\<lparr>status := s\<rparr>)) st = fetchIPInfo env (Inr r') st \<and>
   (fetched = Inr r \<and> body r = Some data \<and> formattedData data = Inr fd \<and>
    isp fd = Some (JStr name) \<longrightarrow>
      ipInfo (fst (fetchIPInfo env fetched st)) = Some fd) \<and>
   (fetched = Inr r \<and> body r = Some JNull \<longrightarrow>
      ipInfo (fst (fetchIPInfo env fetched st)) = Some fallbackData) \<and>
   (fetched = Inr r \<and> body r = Some data \<and> formattedData data = Inr fd \<and>
    (\<forall>n. isp fd \<noteq> Some (JStr n)) \<longrightarrow>
      ipInfo (fst (fetchIPInfo env fetched st)) = Some fallbackData)"
proof (intro conjI impI)
  show "snd (fetchIPInfo env fetched st) = None"
    by (simp add: fetchIPInfo_cases catch_block_fallback split: option.splits)
  show "loading (fst (fetchIPInfo env fetched st)) = False"
    by (simp add: fetchIPInfo_cases split: option.splits)
  show thrown: "ipInfo (fst (fetchIPInfo env fetched st)) = Some fallbackData"
    if "snd (try_block env fetched st) \<noteq> None"
    using that by (auto simp: fetchIPInfo_cases catch_block_fallback split: option.splits)
  show "ipInfo (fst (fetchIPInfo env fetched st)) = Some fallbackData" if "fetched = Inl e"
    using that by (intro thrown) (simp add: try_block_def)
  show "ipInfo (fst (fetchIPInfo env fetched st)) = Some fallbackData"
    if "fetched = Inr r \<and> body r = None"
    using that by (intro thrown) (simp add: try_block_def response_json_def)
  show "fetchIPInfo env (Inr (r'\<lparr>status := s\<rparr>)) st = fetchIPInfo env (Inr r') st"
    by (simp add: fetchIPInfo_def try_block_def response_json_def)
  show "ipInfo (fst (fetchIPInfo env fetched st)) = Some fd"
    if "fetched = Inr r \<and> body r = Some data \<and> formattedData data = Inr fd \<and>
        isp fd = Some (JStr name)"
    using that try_block_mapped [of r data fd name env st]
    by (simp add: fetchIPInfo_cases)
  show "ipInfo (fst (fetchIPInfo env fetched st)) = Some fallbackData"
    if "fetched = Inr r \<and> body r = Some JNull"
    using that
    by (intro thrown) (simp add: try_block_def response_json_def formattedData_def then_do_def)
  show "ipInfo (fst (fetchIPInfo env fetched st)) = Some fallbackData"
    if "fetched = Inr r \<and> body r = Some data \<and> formattedData data = Inr fd \<and>
        (\<forall>n. isp fd \<noteq> Some (JStr n))"
    using that
    by (intro thrown) (simp add: try_block_def response_json_def scorer_throws_on_non_string)
qed

theorem fetch_total_with_fallback_witness:
  "snd (try_block (env_with ''http:'' ''Mozilla/5.0'' True True) (Inl TypeError) initial_state) \<noteq> None \<and>
   body \<lparr>status = 200, body = None\<rparr> = None \<and>
   snd (fetchIPInfo (env_with ''http:'' ''Mozilla/5.0'' True True) (Inl TypeError) initial_state) = None \<and>
   ipInfo (fst (fetchIPInfo (env_with ''http:'' ''Mozilla/5.0'' True True) (Inl TypeError)
     initial_state)) = Some fallbackData \<and>
   ipInfo (fst (fetchIPInfo (env_with ''http:'' ''Mozilla/5.0'' True True)
     (Inr \<lparr>status = 200, body = None\<rparr>) initial_state)) = Some fallbackData \<and>
   body rate_limited = Some (JObj [(''error'', JBool True), (''reason'', JStr ''RateLimited'')]) \<and>
   formattedData (JObj [(''error'', JBool True), (''reason'', JStr ''RateLimited'')]) = Inr unknownData \<and>
   isp unknownData = Some (JStr ''Unknown'') \<and>
   ipInfo (fst (fetchIPInfo (env_with ''http:'' ''Mozilla/5.0'' True True) (Inr rate_limited)
     initial_state)) = Some unknownData \<and>
   body \<lparr>status = 200, body = Some JNull\<rparr> = Some JNull \<and>
   ipInfo (fst (fetchIPInfo (env_with ''http:'' ''Mozilla/5.0'' True True)
     (Inr \<lparr>status = 200, body = Some JNull\<rparr>) initial_state)) = Some fallbackData \<and>
   formattedData (JObj [(''org'', JNum 15169)]) = Inr (unknownData\<lparr>isp := Some (JNum 15169)\<rparr>) \<and>
   ipInfo (fst (fetchIPInfo (env_with ''http:'' ''Mozilla/5.0'' True True)
     (Inr \<lparr>status = 200, body = Some (JObj [(''org'', JNum 15169)])\<rparr>) initial_state)) =
     Some fallbackData"
proof -
  let ?env = "env_with ''http:'' ''Mozilla/5.0'' True True"
  have f: "formattedData (JObj [(''error'', JBool True), (''reason'', JStr ''RateLimited'')]) =
             Inr unknownData"
    by (simp add: formattedData_def then_do_def or_else_def unknownData_def)
  have g: "formattedData (JObj [(''org'', JNum 15169)]) = Inr (unknownData\<lparr>isp := Some (JNum 15169)\<rparr>)"
    by (simp add: formattedData_def then_do_def or_else_def unknownData_def)
  have i: "isp unknownData = Some (JStr ''Unknown'')"
    by (simp add: unknownData_def)
  have b: "body rate_limited = Some (JObj [(''error'', JBool True), (''reason'', JStr ''RateLimited'')])"
    by (simp add: rate_limited_def)
  have t: "snd (try_block ?env (Inl TypeError) initial_state) \<noteq> None"
    by (simp add: try_block_def)
  show ?thesis
    using fetch_total_with_fallback [where env = ?env and fetched = "Inl TypeError"
        and st = initial_state and e = TypeError]
      fetch_total_with_fallback [where env = ?env and fetched = "Inr \<lparr>status = 200, body = None\<rparr>"
        and st = initial_state and r = "\<lparr>status = 200, body = None\<rparr>"]
      fetch_total_with_fallback [where env = ?env and fetched = "Inr rate_limited"
        and st = initial_state and r = rate_limited
        and data = "JObj [(''error'', JBool True), (''reason'', JStr ''RateLimited'')]"
        and fd = unknownData and name = "''Unknown''"]
      fetch_total_with_fallback [where env = ?env
        and fetched = "Inr \<lparr>status = 200, body = Some JNull\<rparr>"
        and st = initial_state and r = "\<lparr>status = 200, body = Some JNull\<rparr>"]
      fetch_total_with_fallback [where env = ?env
        and fetched = "Inr \<lparr>status = 200, body = Some (JObj [(''org'', JNum 15169)])\<rparr>"
        and st = initial_state and r = "\<lparr>status = 200, body = Some (JObj [(''org'', JNum 15169)])\<rparr>"
        and data = "JObj [(''org'', JNum 15169)]"
        and fd = "unknownData\<lparr>isp := Some (JNum 15169)\<rparr>"]
      f g i b t
    by simp
qed

section \<open>The environment inspector: claims\<close>

text \<open>
  C6. For every user agent, the browser family is decided by the rules Chrome, Firefox,
  Safari, Edge in this order, the first pattern that occurs winning, and the version is
  the one extracted with the family's own tag ("Chrome/", "Firefox/", "Version/" for
  Safari, "Edge/"); when no pattern occurs, family and version are both "Unknown". A user
  agent with both "Chrome" and "Safari" is classified as Chrome.
\<close>

theorem browser_detection:
  "\<exists>info. browserInfo (getBrowserInfo env st) = Some info \<and>
     (case first_match browser_rules (nav_userAgent env) of
        None \<Rightarrow> browser info = ''Unknown'' \<and> version info = ''Unknown''
      | Some (family, tag) \<Rightarrow>
          browser info = family \<and> extracted tag (nav_userAgent env) (version info)) \<and>
     (sublist ''Chrome'' (nav_userAgent env) \<and> sublist ''Safari'' (nav_userAgent env) \<longrightarrow>
        browser info = ''Chrome'')"
proof -
  obtain info where "browserInfo (getBrowserInfo env st) = Some info"
    and "(browser info, version info) =
       (if sublist ''Chrome'' (nav_userAgent env)
        then (''Chrome'', or_unknown (match_digits ''Chrome/'' (nav_userAgent env)))
        else if sublist ''Firefox'' (nav_userAgent env)
        then (''Firefox'', or_unknown (match_digits ''Firefox/'' (nav_userAgent env)))
        else if sublist ''Safari'' (nav_userAgent env)
        then (''Safari'', or_unknown (match_digits ''Version/'' (nav_userAgent env)))
        else if sublist ''Edge'' (nav_userAgent env)
        then (''Edge'', or_unknown (match_digits ''Edge/'' (nav_userAgent env)))
        else (''Unknown'', ''Unknown''))"
    using getBrowserInfo_fields [of env st] by blast
  then show ?thesis
    by (intro exI [of _ info]) (auto simp: browser_rules_def or_unknown_extracted split: if_splits)
qed

theorem browser_detection_witness:
  "sublist ''Chrome'' (nav_userAgent (env_with ''https:'' chrome_ua True True)) \<and>
   sublist ''Safari'' (nav_userAgent (env_with ''https:'' chrome_ua True True)) \<and>
   (\<exists>info. browserInfo (getBrowserInfo (env_with ''https:'' chrome_ua True True) initial_state) = Some info \<and>
      browser info = ''Chrome'' \<and> version info = ''120'' \<and> extracted ''Chrome/'' chrome_ua ''120'') \<and>
   first_match browser_rules curl_ua = None \<and>
   (\<exists>info. browserInfo (getBrowserInfo (env_with ''https:'' curl_ua True True) initial_state) = Some info \<and>
      browser info = ''Unknown'' \<and> version info = ''Unknown'')"
  using browser_detection [of "env_with ''https:'' chrome_ua True True" initial_state]
    browser_detection [of "env_with ''https:'' curl_ua True True" initial_state]
  by (auto simp: env_with_def browser_rules_def sample_tests chrome_run [unfolded env_with_def])

text \<open>
  C7. For every user agent, the operating system is decided by the rules Windows, Mac,
  Linux, Android, iOS in this order, the first pattern that occurs winning, and it is
  "Unknown" when none of the five occurs.
\<close>

theorem os_detection:
  "\<exists>info. browserInfo (getBrowserInfo env st) = Some info \<and>
     os info = (case first_match os_rules (nav_userAgent env) of None \<Rightarrow> ''Unknown'' | Some v \<Rightarrow> v) \<and>
     ((\<forall>pat \<in> {''Windows'', ''Mac'', ''Linux'', ''Android'', ''iOS''}. \<not> sublist pat (nav_userAgent env)) \<longrightarrow>
        os info = ''Unknown'')"
proof -
  obtain info where "browserInfo (getBrowserInfo env st) = Some info"
    and "os info =
       (if sublist ''Windows'' (nav_userAgent env) then ''Windows''
        else if sublist ''Mac'' (nav_userAgent env) then ''macOS''
        else if sublist ''Linux'' (nav_userAgent env) then ''Linux''
        else if sublist ''Android'' (nav_userAgent env) then ''Android''
        else if sublist ''iOS'' (nav_userAgent env) then ''iOS''
        else ''Unknown'')"
    using getBrowserInfo_fields [of env st] by blast
  then show ?thesis
    by (intro exI [of _ info]) (simp add: os_rules_def)
qed

theorem os_detection_witness:
  "\<not> sublist ''Windows'' (nav_userAgent (env_with ''https:'' curl_ua True True)) \<and>
   \<not> sublist ''Mac'' (nav_userAgent (env_with ''https:'' curl_ua True True)) \<and>
   \<not> sublist ''Linux'' (nav_userAgent (env_with ''https:'' curl_ua True True)) \<and>
   \<not> sublist ''Android'' (nav_userAgent (env_with ''https:'' curl_ua True True)) \<and>
   \<not> sublist ''iOS'' (nav_userAgent (env_with ''https:'' curl_ua True True)) \<and>
   (\<exists>info. browserInfo (getBrowserInfo (env_with ''https:'' curl_ua True True) initial_state) = Some info \<and>
      os info = ''Unknown'') \<and>
   first_match os_rules chrome_ua = Some ''Windows'' \<and>
   (\<exists>info. browserInfo (getBrowserInfo (env_with ''https:'' chrome_ua True True) initial_state) = Some info \<and>
      os info = ''Windows'')"
  using os_detection [of "env_with ''https:'' curl_ua True True" initial_state]
    os_detection [of "env_with ''https:'' chrome_ua True True" initial_state]
  by (auto simp: env_with_def os_rules_def sample_tests)

text \<open>
  C10. A user agent with both "Linux" and "Android" and with neither "Windows" nor "Mac" is
  reported as Linux, not as Android; Android is reported exactly for the user agents with
  "Android" and none of "Windows", "Mac", "Linux".
\<close>

theorem android_reported_as_linux:
  "\<exists>info. browserInfo (getBrowserInfo env st) = Some info \<and>
     (sublist ''Linux'' (nav_userAgent env) \<and> sublist ''Android'' (nav_userAgent env) \<and>
      \<not> sublist ''Windows'' (nav_userAgent env) \<and> \<not> sublist ''Mac'' (nav_userAgent env) \<longrightarrow>
        os info = ''Linux'' \<and> os info \<noteq> ''Android'') \<and>
     (os info = ''Android'' \<longleftrightarrow>
        sublist ''Android'' (nav_userAgent env) \<and> \<not> sublist ''Windows'' (nav_userAgent env) \<and>
        \<not> sublist ''Mac'' (nav_userAgent env) \<and> \<not> sublist ''Linux'' (nav_userAgent env))"
proof -
  obtain info where "browserInfo (getBrowserInfo env st) = Some info"
    and "os info =
       (if sublist ''Windows'' (nav_userAgent env) then ''Windows''
        else if sublist ''Mac'' (nav_userAgent env) then ''macOS''
        else if sublist ''Linux'' (nav_userAgent env) then ''Linux''
        else if sublist ''Android'' (nav_userAgent env) then ''Android''
        else if sublist ''iOS'' (nav_userAgent env) then ''iOS''
        else ''Unknown'')"
    using getBrowserInfo_fields [of env st] by blast
  then show ?thesis
    by (intro exI [of _ info]) simp
qed


theorem android_reported_as_linux_witness:
  "sublist ''Linux'' (nav_userAgent (env_with ''https:'' android_ua True True)) \<and>
   sublist ''Android'' (nav_userAgent (env_with ''https:'' android_ua True True)) \<and>
   \<not> sublist ''Windows'' (nav_userAgent (env_with ''https:'' android_ua True True)) \<and>
   \<not> sublist ''Mac'' (nav_userAgent (env_with ''https:'' android_ua True True)) \<and>
   (\<exists>info. browserInfo (getBrowserInfo (env_with ''https:'' android_ua True True) initial_state) = Some info \<and>
      os info = ''Linux'') \<and>
   (\<exists>info. browserInfo (getBrowserInfo (env_with ''https:'' bare_android_ua True True) initial_state) = Some info \<and>
      os info = ''Android'')"
  using android_reported_as_linux [of "env_with ''https:'' android_ua True True" initial_state]
    android_reported_as_linux [of "env_with ''https:'' bare_android_ua True True" initial_state]
  by (auto simp: env_with_def sample_tests)

end
